theory Spec2Isabelle
  imports Main "HOL-Library.AList" "HOL-Library.Word"
begin

section \<open>Python values, exceptions and storage nodes\<close>

text \<open>
  The helpers of \<^verbatim>\<open>hickle/helpers.py\<close> work on Python objects and on h5py storage
  nodes. Exceptions are values of \<open>error\<close>; a call that may raise returns \<open>error + 'a\<close>
  with \<open>Inl\<close> for the exception.
\<close>

datatype error =
    NotImplementedError
  | RuntimeError
  | KeyError
  | IndexError
  | AttributeError
  | TypeError
  | ValueError
  | UnicodeDecodeError

text \<open>
  Python objects as far as the helpers look into them. A \<open>PyStr\<close> holds the code points
  of a \<^verbatim>\<open>str\<close>, a \<open>PyBytes\<close> the octets of a \<^verbatim>\<open>bytes\<close>.
\<close>

datatype pyobj =
    PyNone
  | PyInt int
  | PyStr "nat list"
  | PyBytes "8 word list"
  | PyList "pyobj list"
  | PyTuple "pyobj list"
  | PyDict "(pyobj \<times> pyobj) list"

text \<open>
  A storage node is a group (attributes and named members, in storage order) or a dataset
  (attributes and a payload). Attribute sets and dictionaries are association lists with
  distinct keys kept in insertion order, as Python's \<^verbatim>\<open>dict\<close> keeps them.
\<close>

type_synonym attr_items = "(string \<times> pyobj) list"

datatype h5node =
    Group attr_items "(string \<times> h5node) list"
  | Dataset attr_items pyobj

fun node_attrs :: "h5node \<Rightarrow> attr_items" where
  "node_attrs (Group a ms) = a"
| "node_attrs (Dataset a d) = a"

fun with_attrs :: "attr_items \<Rightarrow> h5node \<Rightarrow> h5node" where
  "with_attrs a' (Group a ms) = Group a' ms"
| "with_attrs a' (Dataset a d) = Dataset a' d"

text \<open>
  What an attribute read, an indexing or a call can hand back: a plain object, a reference
  to a node object, a node freshly opened by indexing a group, the attribute manager of a
  node, a \<^verbatim>\<open>collections.ChainMap\<close> of one local dictionary over one base mapping,
  a method bound to a node, or the item view a group's \<^verbatim>\<open>items()\<close> returns.
\<close>

datatype pyval =
    Obj pyobj
  | NodeRef nat
  | NodeVal h5node
  | AttributeManager nat
  | ChainMap attr_items pyval
  | BoundMethod nat string
  | ItemsView "(string \<times> h5node) list"

text \<open>
  Node objects are shared and mutable, so they live in a store: \<open>nodes\<close> holds what is
  persisted for the node an address denotes, \<open>dicts\<close> the instance dictionary of the
  Python object at that address.
\<close>

record heap =
  nodes :: "nat \<Rightarrow> h5node"
  dicts :: "nat \<Rightarrow> (string \<times> pyval) list"

datatype key = KName string | KIndex nat | KAll

subsection \<open>The operations of h5py and of the interpreter that the helpers call\<close>

definition h5_items :: "h5node \<Rightarrow> error + (string \<times> h5node) list" where
  \<comment> \<open>\<^verbatim>\<open>node.items()\<close>: a group lists its members, a dataset has no such method.\<close>
  "h5_items n = (case n of Group a ms \<Rightarrow> Inr ms | Dataset a d \<Rightarrow> Inl AttributeError)"

definition node_methods :: "string set" where
  "node_methods = {''items'', ''keys'', ''values''}"

definition node_getattr :: "heap \<Rightarrow> nat \<Rightarrow> string \<Rightarrow> error + pyval" where
  \<comment> \<open>\<^verbatim>\<open>getattr(node, name)\<close>: the \<^verbatim>\<open>attrs\<close> property, then the instance
      dictionary, then the methods of a group.\<close>
  "node_getattr H r name =
     (if name = ''attrs'' then Inr (AttributeManager r)
      else (case map_of (dicts H r) name of
              Some v \<Rightarrow> Inr v
            | None \<Rightarrow>
                (case nodes H r of
                   Group a ms \<Rightarrow>
                     if name \<in> node_methods then Inr (BoundMethod r name)
                     else Inl AttributeError
                 | Dataset a d \<Rightarrow> Inl AttributeError)))"

definition node_setattr :: "heap \<Rightarrow> nat \<Rightarrow> string \<Rightarrow> pyval \<Rightarrow> error + heap" where
  \<comment> \<open>\<^verbatim>\<open>setattr(node, name, value)\<close>: \<^verbatim>\<open>attrs\<close> is a read-only property, any
      other name lands in the instance dictionary.\<close>
  "node_setattr H r name v =
     (if name = ''attrs'' then Inl AttributeError
      else Inr (H\<lparr>dicts := (dicts H)(r := AList.update name v (dicts H r))\<rparr>))"

definition node_getitem :: "heap \<Rightarrow> nat \<Rightarrow> key \<Rightarrow> error + pyval" where
  \<comment> \<open>\<^verbatim>\<open>node[key]\<close>: a group opens the member of that name, a dataset reads its
      payload, whole or one element.\<close>
  "node_getitem H r k =
     (case nodes H r of
        Group a ms \<Rightarrow>
          (case k of
             KName s \<Rightarrow> (case map_of ms s of Some c \<Rightarrow> Inr (NodeVal c) | None \<Rightarrow> Inl KeyError)
           | KIndex i \<Rightarrow> Inl TypeError
           | KAll \<Rightarrow> Inl TypeError)
      | Dataset a d \<Rightarrow>
          (case k of
             KName s \<Rightarrow> Inl ValueError
           | KIndex i \<Rightarrow>
               (case d of
                  PyList xs \<Rightarrow> if i < length xs then Inr (Obj (xs ! i)) else Inl IndexError
                | _ \<Rightarrow> Inl IndexError)
           | KAll \<Rightarrow> Inr (Obj d)))"

definition getattr_val :: "heap \<Rightarrow> pyval \<Rightarrow> string \<Rightarrow> error + pyval" where
  "getattr_val H v name =
     (case v of NodeRef r \<Rightarrow> node_getattr H r name | _ \<Rightarrow> Inl AttributeError)"

definition setattr_val :: "heap \<Rightarrow> pyval \<Rightarrow> string \<Rightarrow> pyval \<Rightarrow> error + heap" where
  "setattr_val H v name x =
     (case v of NodeRef r \<Rightarrow> node_setattr H r name x | _ \<Rightarrow> Inl AttributeError)"

definition getitem_val :: "heap \<Rightarrow> pyval \<Rightarrow> key \<Rightarrow> error + pyval" where
  "getitem_val H v k =
     (case v of NodeRef r \<Rightarrow> node_getitem H r k | _ \<Rightarrow> Inl TypeError)"

text \<open>
  Subscripting a mapping by an attribute name. An attribute manager reads and writes the
  persisted attributes of its node. A \<^verbatim>\<open>ChainMap\<close> looks a key up in its first
  dictionary, then in its base, and raises \<^verbatim>\<open>KeyError\<close> when both miss; it writes to
  and deletes from its first dictionary only.
\<close>

fun mapping_getitem :: "heap \<Rightarrow> pyval \<Rightarrow> string \<Rightarrow> error + pyobj" where
  "mapping_getitem H (AttributeManager r) k =
     (case map_of (node_attrs (nodes H r)) k of Some v \<Rightarrow> Inr v | None \<Rightarrow> Inl KeyError)"
| "mapping_getitem H (ChainMap d base) k =
     (case map_of d k of Some v \<Rightarrow> Inr v | None \<Rightarrow> mapping_getitem H base k)"
| "mapping_getitem H _ k = Inl TypeError"

fun mapping_setitem :: "heap \<Rightarrow> pyval \<Rightarrow> string \<Rightarrow> pyobj \<Rightarrow> error + heap \<times> pyval" where
  "mapping_setitem H (AttributeManager r) k v =
     Inr (H\<lparr>nodes := (nodes H)(r := with_attrs (AList.update k v (node_attrs (nodes H r)))
                                        (nodes H r))\<rparr>,
          AttributeManager r)"
| "mapping_setitem H (ChainMap d base) k v = Inr (H, ChainMap (AList.update k v d) base)"
| "mapping_setitem H _ k v = Inl TypeError"

fun mapping_delitem :: "heap \<Rightarrow> pyval \<Rightarrow> string \<Rightarrow> error + heap \<times> pyval" where
  "mapping_delitem H (AttributeManager r) k =
     (case map_of (node_attrs (nodes H r)) k of
        None \<Rightarrow> Inl KeyError
      | Some v \<Rightarrow>
          Inr (H\<lparr>nodes := (nodes H)(r := with_attrs (AList.delete k (node_attrs (nodes H r)))
                                             (nodes H r))\<rparr>,
               AttributeManager r))"
| "mapping_delitem H (ChainMap d base) k =
     (case map_of d k of
        None \<Rightarrow> Inl KeyError
      | Some v \<Rightarrow> Inr (H, ChainMap (AList.delete k d) base))"
| "mapping_delitem H _ k = Inl TypeError"

section \<open>PyContainer\<close>

text \<open>
  \<^verbatim>\<open>__init__\<close> stores its arguments and starts the content with a fresh empty list
  unless the caller passes one (\<^verbatim>\<open>_content if _content is not None else []\<close>).
\<close>

record PyContainer =
  base_type :: pyobj
  object_type :: string
  h5_attrs :: pyval
  content :: pyobj

definition PyContainer_init :: "pyval \<Rightarrow> pyobj \<Rightarrow> string \<Rightarrow> pyobj \<Rightarrow> PyContainer" where
  "PyContainer_init attrs0 bt ot c0 =
     \<lparr>base_type = bt, object_type = ot, h5_attrs = attrs0,
      content = (if c0 \<noteq> PyNone then c0 else PyList [])\<rparr>"

fun yield_from :: "'a list \<Rightarrow> 'a list" where
  \<comment> \<open>\<^verbatim>\<open>yield from it\<close>: the generator hands on each value of the iterator in turn.\<close>
  "yield_from [] = []"
| "yield_from (x # xs) = x # yield_from xs"

definition PyContainer_filter ::
  "PyContainer \<Rightarrow> h5node \<Rightarrow> error + (string \<times> h5node) list" where
  "PyContainer_filter self h_parent =
     (case h5_items h_parent of Inl e \<Rightarrow> Inl e | Inr its \<Rightarrow> Inr (yield_from its))"

definition list_append :: "pyobj \<Rightarrow> pyobj \<Rightarrow> error + pyobj" where
  \<comment> \<open>\<^verbatim>\<open>c.append(item)\<close>: of the objects modelled only a list has the method.\<close>
  "list_append c item =
     (case c of PyList xs \<Rightarrow> Inr (PyList (xs @ [item])) | _ \<Rightarrow> Inl AttributeError)"

definition PyContainer_append ::
  "string \<Rightarrow> pyobj \<Rightarrow> pyval \<Rightarrow> PyContainer \<Rightarrow> error + PyContainer" where
  "PyContainer_append name item attrs1 self =
     (case list_append (content self) item of
        Inl e \<Rightarrow> Inl e
      | Inr c \<Rightarrow> Inr (self\<lparr>content := c\<rparr>))"

definition PyContainer_convert :: "PyContainer \<Rightarrow> error + pyobj" where
  "PyContainer_convert self = Inl NotImplementedError"

text \<open>
  A class derived from \<^verbatim>\<open>PyContainer\<close> either overrides \<^verbatim>\<open>convert\<close> or inherits
  it. Creating an instance runs \<^verbatim>\<open>PyContainer.__init__\<close> in both cases; the call
  \<^verbatim>\<open>container.convert()\<close> runs the override where there is one.
\<close>

record container_class =
  class_name :: string
  convert_override :: "(PyContainer \<Rightarrow> error + pyobj) option"

definition new_container ::
  "container_class \<Rightarrow> pyval \<Rightarrow> pyobj \<Rightarrow> string \<Rightarrow> error + PyContainer" where
  "new_container cls attrs0 bt ot = Inr (PyContainer_init attrs0 bt ot PyNone)"

definition call_convert :: "container_class \<Rightarrow> PyContainer \<Rightarrow> error + pyobj" where
  "call_convert cls self =
     (case convert_override cls of Some f \<Rightarrow> f self | None \<Rightarrow> PyContainer_convert self)"

text \<open>
  A caller's view of one container: a sequence of method calls, each of which returns or
  raises; a call that raises leaves the container as it was.
\<close>

datatype call = Append string pyobj pyval | Convert

datatype outcome = Returned pyobj | Raised error

fun invoke :: "call \<Rightarrow> PyContainer \<Rightarrow> outcome \<times> PyContainer" where
  "invoke (Append name item attrs1) self =
     (case PyContainer_append name item attrs1 self of
        Inl e \<Rightarrow> (Raised e, self)
      | Inr self' \<Rightarrow> (Returned PyNone, self'))"
| "invoke Convert self =
     (case PyContainer_convert self of
        Inl e \<Rightarrow> (Raised e, self)
      | Inr v \<Rightarrow> (Returned v, self))"

fun invoke_all :: "call list \<Rightarrow> PyContainer \<Rightarrow> outcome list \<times> PyContainer" where
  "invoke_all [] self = ([], self)"
| "invoke_all (c # cs) self =
     (case invoke c self of
        (out, self') \<Rightarrow> (case invoke_all cs self' of (outs, self'') \<Rightarrow> (out # outs, self'')))"

fun append_all :: "(string \<times> pyobj \<times> pyval) list \<Rightarrow> PyContainer \<Rightarrow> error + PyContainer" where
  "append_all [] self = Inr self"
| "append_all ((name, item, attrs1) # rest) self =
     (case PyContainer_append name item attrs1 self of
        Inl e \<Rightarrow> Inl e
      | Inr self' \<Rightarrow> append_all rest self')"

text \<open>What the calls of a sequence hand over, and what each of them does on a list.\<close>

fun appended :: "call list \<Rightarrow> pyobj list" where
  "appended [] = []"
| "appended (Append name item attrs1 # cs) = item # appended cs"
| "appended (Convert # cs) = appended cs"

fun outcome_of :: "call \<Rightarrow> outcome" where
  "outcome_of (Append name item attrs1) = Returned PyNone"
| "outcome_of Convert = Raised NotImplementedError"

section \<open>H5NodeFilterProxy\<close>

text \<open>
  The proxy has two slots of its own: the wrapped node and a \<^verbatim>\<open>ChainMap\<close> of a
  fresh empty dictionary over the wrapped node's \<^verbatim>\<open>attrs\<close>.
\<close>

record H5NodeFilterProxy =
  h5_node :: pyval
  attrs :: pyval

definition local_names :: "string set" where
  "local_names = {''attrs'', ''_h5_node''}"

definition H5NodeFilterProxy_init :: "heap \<Rightarrow> pyval \<Rightarrow> error + H5NodeFilterProxy" where
  "H5NodeFilterProxy_init H node =
     (case getattr_val H node ''attrs'' of
        Inl e \<Rightarrow> Inl e
      | Inr a \<Rightarrow> Inr \<lparr>h5_node = node, attrs = ChainMap [] a\<rparr>)"

definition local_slot :: "H5NodeFilterProxy \<Rightarrow> string \<Rightarrow> pyval" where
  "local_slot self name = (if name = ''attrs'' then attrs self else h5_node self)"

definition store_slot :: "H5NodeFilterProxy \<Rightarrow> string \<Rightarrow> pyval \<Rightarrow> H5NodeFilterProxy" where
  "store_slot self name v =
     (if name = ''attrs'' then self\<lparr>attrs := v\<rparr> else self\<lparr>h5_node := v\<rparr>)"

definition H5NodeFilterProxy_getattribute ::
  "heap \<Rightarrow> H5NodeFilterProxy \<Rightarrow> string \<Rightarrow> error + pyval" where
  "H5NodeFilterProxy_getattribute H self name =
     (if name \<in> local_names then Inr (local_slot self name)
      else getattr_val H (h5_node self) name)"

definition H5NodeFilterProxy_setattr ::
  "heap \<Rightarrow> H5NodeFilterProxy \<Rightarrow> string \<Rightarrow> pyval \<Rightarrow> error + heap \<times> H5NodeFilterProxy" where
  "H5NodeFilterProxy_setattr H self name v =
     (if name \<in> local_names then Inr (H, store_slot self name v)
      else (case setattr_val H (h5_node self) name v of
              Inl e \<Rightarrow> Inl e
            | Inr H' \<Rightarrow> Inr (H', self)))"

definition H5NodeFilterProxy_getitem ::
  "heap \<Rightarrow> H5NodeFilterProxy \<Rightarrow> key \<Rightarrow> error + pyval" where
  "H5NodeFilterProxy_getitem H self k = getitem_val H (h5_node self) k"

text \<open>
  The statements a loader writes with a proxy: \<^verbatim>\<open>proxy.attrs[k]\<close>,
  \<^verbatim>\<open>proxy.attrs[k] = v\<close> and \<^verbatim>\<open>del proxy.attrs[k]\<close> read the \<^verbatim>\<open>attrs\<close> slot
  through \<^verbatim>\<open>__getattribute__\<close> and subscript what they get; the mapping object in the
  slot is changed in place.
\<close>

definition proxy_attrs_getitem :: "heap \<Rightarrow> H5NodeFilterProxy \<Rightarrow> string \<Rightarrow> error + pyobj" where
  "proxy_attrs_getitem H self k =
     (case H5NodeFilterProxy_getattribute H self ''attrs'' of
        Inl e \<Rightarrow> Inl e
      | Inr m \<Rightarrow> mapping_getitem H m k)"

definition proxy_attrs_setitem ::
  "heap \<Rightarrow> H5NodeFilterProxy \<Rightarrow> string \<Rightarrow> pyobj \<Rightarrow> error + heap \<times> H5NodeFilterProxy" where
  "proxy_attrs_setitem H self k v =
     (case H5NodeFilterProxy_getattribute H self ''attrs'' of
        Inl e \<Rightarrow> Inl e
      | Inr m \<Rightarrow>
          (case mapping_setitem H m k v of
             Inl e \<Rightarrow> Inl e
           | Inr (H', m') \<Rightarrow> Inr (H', self\<lparr>attrs := m'\<rparr>)))"

definition proxy_attrs_delitem ::
  "heap \<Rightarrow> H5NodeFilterProxy \<Rightarrow> string \<Rightarrow> error + heap \<times> H5NodeFilterProxy" where
  "proxy_attrs_delitem H self k =
     (case H5NodeFilterProxy_getattribute H self ''attrs'' of
        Inl e \<Rightarrow> Inl e
      | Inr m \<Rightarrow>
          (case mapping_delitem H m k of
             Inl e \<Rightarrow> Inl e
           | Inr (H', m') \<Rightarrow> Inr (H', self\<lparr>attrs := m'\<rparr>)))"

text \<open>
  One use of a proxy by a loader, and a run of uses. A use that raises leaves the store
  and the proxy as they were.
\<close>

datatype use =
    AttrsSet string pyobj
  | AttrsDel string
  | AttrsGet string
  | GetAttr string
  | GetItem key

fun use_proxy :: "use \<Rightarrow> heap \<times> H5NodeFilterProxy \<Rightarrow> heap \<times> H5NodeFilterProxy" where
  "use_proxy (AttrsSet k v) (H, p) =
     (case proxy_attrs_setitem H p k v of Inl e \<Rightarrow> (H, p) | Inr s \<Rightarrow> s)"
| "use_proxy (AttrsDel k) (H, p) =
     (case proxy_attrs_delitem H p k of Inl e \<Rightarrow> (H, p) | Inr s \<Rightarrow> s)"
| "use_proxy (AttrsGet k) (H, p) = (case proxy_attrs_getitem H p k of _ \<Rightarrow> (H, p))"
| "use_proxy (GetAttr name) (H, p) =
     (case H5NodeFilterProxy_getattribute H p name of _ \<Rightarrow> (H, p))"
| "use_proxy (GetItem k) (H, p) = (case H5NodeFilterProxy_getitem H p k of _ \<Rightarrow> (H, p))"

definition use_all :: "use list \<Rightarrow> heap \<times> H5NodeFilterProxy \<Rightarrow> heap \<times> H5NodeFilterProxy" where
  "use_all us s = fold use_proxy us s"

fun write_all ::
  "(string \<times> pyobj) list \<Rightarrow> heap \<times> H5NodeFilterProxy \<Rightarrow> error + heap \<times> H5NodeFilterProxy" where
  "write_all [] s = Inr s"
| "write_all ((k, v) # ws) (H, p) =
     (case proxy_attrs_setitem H p k v of Inl e \<Rightarrow> Inl e | Inr s \<Rightarrow> write_all ws s)"

definition last_written :: "(string \<times> pyobj) list \<Rightarrow> string \<Rightarrow> pyobj option" where
  \<comment> \<open>the value the latest write to a key gave it\<close>
  "last_written ws k = map_of (rev ws) k"

section \<open>no\_compression and not\_dumpable\<close>

text \<open>
  The argument of \<^verbatim>\<open>no_compression\<close> is a \<^verbatim>\<open>dict\<close>, read through
  \<^verbatim>\<open>items()\<close>, or any iterable of key-value pairs, read as it is. The pairs that pass
  the test go to \<^verbatim>\<open>dict.__init__\<close>, which enters them one after the other; a key that
  comes again keeps its place and takes the later value. The keyword arguments are not used.
\<close>

datatype mapping_arg = DictArg attr_items | PairsArg "(string \<times> pyobj) list"

fun arg_pairs :: "mapping_arg \<Rightarrow> (string \<times> pyobj) list" where
  "arg_pairs (DictArg d) = d"
| "arg_pairs (PairsArg ps) = ps"

definition dict_from_pairs :: "(string \<times> pyobj) list \<Rightarrow> attr_items" where
  "dict_from_pairs ps = foldl (\<lambda>d (k, v). AList.update k v d) [] ps"

definition compression_keys :: "string set" where
  "compression_keys =
     {''compression'', ''shuffle'', ''compression_opts'', ''chunks'', ''fletcher32'',
      ''scaleoffset''}"

definition no_compression :: "mapping_arg \<Rightarrow> attr_items \<Rightarrow> attr_items" where
  "no_compression mapping kwargs =
     dict_from_pairs (filter (\<lambda>(k, v). k \<notin> compression_keys) (arg_pairs mapping))"

text \<open>
  A \<^verbatim>\<open>dict\<close> has each key once; the mapping an argument stands for is the dictionary
  itself, or the dictionary its pairs build.
\<close>

fun wf_arg :: "mapping_arg \<Rightarrow> bool" where
  "wf_arg (DictArg d) = distinct (map fst d)"
| "wf_arg (PairsArg ps) = True"

fun as_dict :: "mapping_arg \<Rightarrow> attr_items" where
  "as_dict (DictArg d) = d"
| "as_dict (PairsArg ps) = dict_from_pairs ps"

definition not_dumpable ::
  "heap \<Rightarrow> pyobj \<Rightarrow> pyval \<Rightarrow> string \<Rightarrow> attr_items \<Rightarrow> (error + pyval) \<times> heap" where
  "not_dumpable H py_obj h_group name kwargs = (Inl RuntimeError, H)"

section \<open>The string attribute helpers\<close>

datatype codec = Ascii | Utf8

definition is_cont :: "nat \<Rightarrow> bool" where
  "is_cont b \<longleftrightarrow> 128 \<le> b \<and> b < 192"

fun utf8_decode :: "nat list \<Rightarrow> nat list option" where
  "utf8_decode [] = Some []"
| "utf8_decode (b # bs) =
     (if b < 128 then map_option (Cons b) (utf8_decode bs)
      else if 194 \<le> b \<and> b < 224 then
        (case bs of
           b1 # r \<Rightarrow>
             if is_cont b1
             then map_option (Cons ((b - 192) * 64 + (b1 - 128))) (utf8_decode r)
             else None
         | _ \<Rightarrow> None)
      else if 224 \<le> b \<and> b < 240 then
        (case bs of
           b1 # b2 # r \<Rightarrow>
             (let cp = (b - 224) * 4096 + (b1 - 128) * 64 + (b2 - 128)
              in if is_cont b1 \<and> is_cont b2 \<and> 2048 \<le> cp \<and> \<not> (55296 \<le> cp \<and> cp < 57344)
                 then map_option (Cons cp) (utf8_decode r)
                 else None)
         | _ \<Rightarrow> None)
      else if 240 \<le> b \<and> b < 245 then
        (case bs of
           b1 # b2 # b3 # r \<Rightarrow>
             (let cp = (b - 240) * 262144 + (b1 - 128) * 4096 + (b2 - 128) * 64 + (b3 - 128)
              in if is_cont b1 \<and> is_cont b2 \<and> is_cont b3 \<and> 65536 \<le> cp \<and> cp < 1114112
                 then map_option (Cons cp) (utf8_decode r)
                 else None)
         | _ \<Rightarrow> None)
      else None)"

fun decode :: "codec \<Rightarrow> pyobj \<Rightarrow> error + pyobj" where
  \<comment> \<open>\<^verbatim>\<open>value.decode(codec)\<close>: of the objects modelled only \<^verbatim>\<open>bytes\<close> has the method.\<close>
  "decode Ascii (PyBytes bs) =
     (if list_all (\<lambda>b. unat b < 128) bs then Inr (PyStr (map unat bs))
      else Inl UnicodeDecodeError)"
| "decode Utf8 (PyBytes bs) =
     (case utf8_decode (map unat bs) of
        None \<Rightarrow> Inl UnicodeDecodeError
      | Some s \<Rightarrow> Inr (PyStr s))"
| "decode c _ = Inl AttributeError"

fun py_iter :: "pyobj \<Rightarrow> error + pyobj list" where
  \<comment> \<open>what \<^verbatim>\<open>for value in obj\<close> runs through\<close>
  "py_iter (PyList xs) = Inr xs"
| "py_iter (PyTuple xs) = Inr xs"
| "py_iter (PyBytes bs) = Inr (map (\<lambda>b. PyInt (uint b)) bs)"
| "py_iter (PyStr s) = Inr (map (\<lambda>c. PyStr [c]) s)"
| "py_iter (PyDict kvs) = Inr (map fst kvs)"
| "py_iter PyNone = Inl TypeError"
| "py_iter (PyInt i) = Inl TypeError"

fun decode_each :: "codec \<Rightarrow> pyobj list \<Rightarrow> error + pyobj list" where
  "decode_each c [] = Inr []"
| "decode_each c (x # xs) =
     (case decode c x of
        Inl e \<Rightarrow> Inl e
      | Inr s \<Rightarrow> (case decode_each c xs of Inl e \<Rightarrow> Inl e | Inr ss \<Rightarrow> Inr (s # ss)))"

definition AttributeManager_get :: "heap \<Rightarrow> pyval \<Rightarrow> string \<Rightarrow> error + pyobj" where
  \<comment> \<open>\<^verbatim>\<open>get(name)\<close> of a mapping: the value, or \<^verbatim>\<open>None\<close> for a missing key\<close>
  "AttributeManager_get H m name =
     (case mapping_getitem H m name of
        Inr v \<Rightarrow> Inr v
      | Inl e \<Rightarrow> if e = KeyError then Inr PyNone else Inl e)"

definition load_str_list_attr_ascii :: "heap \<Rightarrow> pyval \<Rightarrow> string \<Rightarrow> error + pyobj" where
  "load_str_list_attr_ascii H m name =
     (case mapping_getitem H m name of
        Inl e \<Rightarrow> Inl e
      | Inr v \<Rightarrow>
          (case py_iter v of
             Inl e \<Rightarrow> Inl e
           | Inr xs \<Rightarrow> map_sum id PyList (decode_each Ascii xs)))"

definition load_str_list_attr :: "heap \<Rightarrow> pyval \<Rightarrow> string \<Rightarrow> error + pyobj" where
  "load_str_list_attr H m name =
     (case mapping_getitem H m name of
        Inl e \<Rightarrow> Inl e
      | Inr v \<Rightarrow>
          (case py_iter v of
             Inl e \<Rightarrow> Inl e
           | Inr xs \<Rightarrow> map_sum id PyList (decode_each Utf8 xs)))"

definition load_str_attr_ascii :: "heap \<Rightarrow> pyval \<Rightarrow> string \<Rightarrow> error + pyobj" where
  "load_str_attr_ascii H m name =
     (case mapping_getitem H m name of Inl e \<Rightarrow> Inl e | Inr v \<Rightarrow> decode Ascii v)"

definition load_str_attr :: "heap \<Rightarrow> pyval \<Rightarrow> string \<Rightarrow> error + pyobj" where
  "load_str_attr H m name =
     (case mapping_getitem H m name of Inl e \<Rightarrow> Inl e | Inr v \<Rightarrow> decode Utf8 v)"

text \<open>
  The names the module binds at import. The branch taken depends on the first component
  of h5py's version tuple. A chained assignment \<^verbatim>\<open>a = b = f\<close> binds \<open>a\<close>, then \<open>b\<close>;
  a \<^verbatim>\<open>def\<close> binds the function's name.
\<close>

type_synonym helper = "heap \<Rightarrow> pyval \<Rightarrow> string \<Rightarrow> error + pyobj"

definition bind_names :: "string list \<Rightarrow> helper \<Rightarrow> (string \<rightharpoonup> helper) \<Rightarrow> (string \<rightharpoonup> helper)" where
  "bind_names names f ns = fold (\<lambda>n m. m(n \<mapsto> f)) names ns"

definition module_helpers :: "nat \<Rightarrow> (string \<rightharpoonup> helper)" where
  "module_helpers major =
     (if 3 \<le> major then
        bind_names [''load_str_attr_ascii'', ''load_str_list_attr''] AttributeManager_get
          (bind_names [''load_str_list_attr_ascii'', ''load_str_list_attr''] AttributeManager_get
             Map.empty)
      else
        bind_names [''load_str_attr''] load_str_attr
          (bind_names [''load_str_attr_ascii''] load_str_attr_ascii
             (bind_names [''load_str_list_attr''] load_str_list_attr
                (bind_names [''load_str_list_attr_ascii''] load_str_list_attr_ascii
                   Map.empty))))"

definition helper_names :: "string list" where
  "helper_names =
     [''load_str_attr'', ''load_str_attr_ascii'', ''load_str_list_attr'',
      ''load_str_list_attr_ascii'']"

section \<open>Example values\<close>

definition plain_group :: heap where
  \<comment> \<open>a store whose nodes are empty groups with no instance attributes\<close>
  "plain_group = \<lparr>nodes = (\<lambda>r. Group [] []), dicts = (\<lambda>r. [])\<rparr>"

definition dataset_kwargs :: mapping_arg where
  "dataset_kwargs =
     DictArg [(''compression'', PyStr [103, 122]), (''dtype'', PyInt 8),
              (''chunks'', PyNone), (''maxshape'', PyNone)]"

definition unfinished_class :: container_class where
  \<comment> \<open>a class derived from \<^verbatim>\<open>PyContainer\<close> that defines no \<^verbatim>\<open>convert\<close>\<close>
  "unfinished_class = \<lparr>class_name = ''Unfinished'', convert_override = None\<rparr>"

section \<open>Properties of PyContainer\<close>

lemma yield_from_id: "yield_from xs = xs"
  by (induction xs) simp_all

lemma append_all_content:
  "content self = PyList xs \<Longrightarrow>
   append_all calls self = Inr (self\<lparr>content := PyList (xs @ map (\<lambda>c. fst (snd c)) calls)\<rparr>)"
proof (induction calls arbitrary: self xs)
  case Nil
  then show ?case by simp
next
  case (Cons c calls)
  obtain name item a where c: "c = (name, item, a)" by (cases c) auto
  have "content (self\<lparr>content := PyList (xs @ [item])\<rparr>) = PyList (xs @ [item])" by simp
  from Cons.IH [OF this] show ?case
    using Cons.prems by (simp add: c PyContainer_append_def list_append_def)
qed

lemma invoke_all_list:
  "content self = PyList xs \<Longrightarrow>
   invoke_all cs self = (map outcome_of cs, self\<lparr>content := PyList (xs @ appended cs)\<rparr>)"
proof (induction cs arbitrary: self xs)
  case Nil
  then show ?case by simp
next
  case (Cons c cs)
  show ?case
  proof (cases c)
    case (Append name item a)
    have "content (self\<lparr>content := PyList (xs @ [item])\<rparr>) = PyList (xs @ [item])" by simp
    from Cons.IH [OF this] show ?thesis
      using Cons.prems by (simp add: Append PyContainer_append_def list_append_def)
  next
    case Convert
    from Cons.IH [OF Cons.prems] show ?thesis
      by (simp add: Convert PyContainer_convert_def)
  qed
qed

text \<open>
  Claim C3, as stated: once \<^verbatim>\<open>convert()\<close> has been called no further \<^verbatim>\<open>append\<close>
  is permitted, and a second \<^verbatim>\<open>convert()\<close> fails with a ProtocolError. The class
  keeps no record of past calls. On a fresh container the calls convert, append, convert
  give: \<^verbatim>\<open>NotImplementedError\<close>, a normal return that extends the content, and
  \<^verbatim>\<open>NotImplementedError\<close> again.
\<close>

theorem convert_then_append_counterexample:
  "invoke_all [Convert, Append ''data0'' (PyInt 1) (AttributeManager 0), Convert]
     (PyContainer_init (AttributeManager 0) (PyBytes []) ''list'' PyNone) =
   ([Raised NotImplementedError, Returned PyNone, Raised NotImplementedError],
    (PyContainer_init (AttributeManager 0) (PyBytes []) ''list'' PyNone)
      \<lparr>content := PyList [PyInt 1]\<rparr>)"
  by (simp add: PyContainer_init_def PyContainer_append_def list_append_def
      PyContainer_convert_def)

text \<open>
  Claim C3, amended: \<^verbatim>\<open>PyContainer\<close> tracks no collecting or finalized state. In any
  sequence of \<^verbatim>\<open>append\<close> and \<^verbatim>\<open>convert\<close> calls on a container with the default
  content, every \<^verbatim>\<open>convert()\<close> raises \<^verbatim>\<open>NotImplementedError\<close> and changes nothing,
  and every \<^verbatim>\<open>append\<close> returns, before or after a \<^verbatim>\<open>convert()\<close>; the content at
  the end is the list of all appended items in call order.
\<close>

theorem calls_ignore_history:
  "invoke_all cs (PyContainer_init a bt ot PyNone) =
     (map outcome_of cs, (PyContainer_init a bt ot PyNone)\<lparr>content := PyList (appended cs)\<rparr>)"
  using invoke_all_list [of "PyContainer_init a bt ot PyNone" "[]" cs]
  by (simp add: PyContainer_init_def)

text \<open>
  Claim C4, as stated: a concrete container class without \<^verbatim>\<open>convert()\<close> is rejected by
  a capability check before any call, and \<^verbatim>\<open>NotImplementedError\<close> is never raised by
  a call on such a container. An instance of such a class is created without complaint, and
  its \<^verbatim>\<open>convert()\<close> raises \<^verbatim>\<open>NotImplementedError\<close> when it is called.
\<close>

theorem missing_convert_counterexample:
  "new_container unfinished_class (AttributeManager 0) (PyBytes [108, 105, 115, 116]) ''list'' =
     Inr \<lparr>base_type = PyBytes [108, 105, 115, 116], object_type = ''list'',
          h5_attrs = AttributeManager 0, content = PyList []\<rparr> \<and>
   call_convert unfinished_class
       \<lparr>base_type = PyBytes [108, 105, 115, 116], object_type = ''list'',
        h5_attrs = AttributeManager 0, content = PyList []\<rparr> =
     Inl NotImplementedError"
  by (simp add: new_container_def call_convert_def PyContainer_convert_def PyContainer_init_def
      unfinished_class_def)

text \<open>
  Claim C4, amended: \<^verbatim>\<open>PyContainer\<close> makes no capability check. A class that does not
  override \<^verbatim>\<open>convert()\<close> is instantiated like any other, and the inherited
  \<^verbatim>\<open>convert()\<close> raises \<^verbatim>\<open>NotImplementedError\<close> at the time of each call, whatever
  the container holds.
\<close>

theorem missing_convert_fails_at_call:
  "new_container \<lparr>class_name = n, convert_override = None\<rparr> a bt ot =
     Inr (PyContainer_init a bt ot PyNone) \<and>
   call_convert \<lparr>class_name = n, convert_override = None\<rparr> self = Inl NotImplementedError"
  by (simp add: new_container_def call_convert_def PyContainer_convert_def)

text \<open>
  Claim C5: for a parent group the default \<^verbatim>\<open>filter\<close> yields exactly the group's
  members as (name, node) pairs in storage order: nothing added, dropped, renamed or
  reordered.
\<close>

theorem default_filter_yields_members:
  "PyContainer_filter self (Group a ms) = Inr ms"
  by (simp add: PyContainer_filter_def h5_items_def yield_from_id)

text \<open>
  Claim C6: on a container built with the default content, the calls
  \<^verbatim>\<open>append(name_1, x_1, a_1)\<close>, ..., \<^verbatim>\<open>append(name_n, x_n, a_n)\<close> all return and
  leave the content equal to the list \<open>[x_1, ..., x_n]\<close>; the names and the attribute
  arguments do not enter the result.
\<close>

theorem default_append_accumulates:
  "append_all calls (PyContainer_init a bt ot PyNone) =
     Inr ((PyContainer_init a bt ot PyNone)
            \<lparr>content := PyList (map (\<lambda>c. fst (snd c)) calls)\<rparr>)"
  using append_all_content [of "PyContainer_init a bt ot PyNone" "[]" calls]
  by (simp add: PyContainer_init_def)

section \<open>Properties of H5NodeFilterProxy\<close>

lemma init_node:
  "H5NodeFilterProxy_init H (NodeRef r) =
     Inr \<lparr>h5_node = NodeRef r, attrs = ChainMap [] (AttributeManager r)\<rparr>"
  by (simp add: H5NodeFilterProxy_init_def getattr_val_def node_getattr_def)

lemma getattribute_attrs: "H5NodeFilterProxy_getattribute H p ''attrs'' = Inr (attrs p)"
  by (simp add: H5NodeFilterProxy_getattribute_def local_names_def local_slot_def)

lemma use_proxy_overlay:
  assumes "attrs p = ChainMap d b"
  shows "\<exists>p' d'. use_proxy u (H, p) = (H, p') \<and> attrs p' = ChainMap d' b"
proof (cases u)
  case (AttrsSet k v)
  with assms show ?thesis
    by (simp add: proxy_attrs_setitem_def getattribute_attrs)
next
  case (AttrsDel k)
  with assms show ?thesis
    by (cases "map_of d k") (simp_all add: proxy_attrs_delitem_def getattribute_attrs)
next
  case (AttrsGet k)
  with assms show ?thesis by simp
next
  case (GetAttr name)
  with assms show ?thesis by simp
next
  case (GetItem k)
  with assms show ?thesis by simp
qed

lemma use_all_overlay:
  "attrs p = ChainMap d b \<Longrightarrow> \<exists>p' d'. use_all us (H, p) = (H, p') \<and> attrs p' = ChainMap d' b"
proof (induction us arbitrary: p d)
  case Nil
  then show ?case by (simp add: use_all_def)
next
  case (Cons u us)
  from use_proxy_overlay [OF Cons.prems] obtain p1 d1
    where 1: "use_proxy u (H, p) = (H, p1)" and 2: "attrs p1 = ChainMap d1 b" by blast
  from Cons.IH [OF 2] 1 show ?case by (simp add: use_all_def)
qed

lemma map_of_foldl_update:
  "map_of (foldl (\<lambda>d (k, v). AList.update k v d) d0 ws) k =
     (case map_of (rev ws) k of Some v \<Rightarrow> Some v | None \<Rightarrow> map_of d0 k)"
proof (induction ws arbitrary: d0)
  case Nil
  then show ?case by simp
next
  case (Cons w ws)
  obtain k' v' where w: "w = (k', v')" by (cases w)
  show ?case
    by (simp add: w Cons.IH update_conv' map_add_def split: option.splits)
qed

lemma write_all_overlay:
  "attrs p = ChainMap d b \<Longrightarrow>
   write_all ws (H, p) =
     Inr (H, p\<lparr>attrs := ChainMap (foldl (\<lambda>d (k, v). AList.update k v d) d ws) b\<rparr>)"
proof (induction ws arbitrary: p d)
  case Nil
  then show ?case by simp
next
  case (Cons w ws)
  obtain k v where w: "w = (k, v)" by (cases w)
  have "attrs (p\<lparr>attrs := ChainMap (AList.update k v d) b\<rparr>) = ChainMap (AList.update k v d) b"
    by simp
  from Cons.IH [OF this] show ?case
    using Cons.prems by (simp add: w proxy_attrs_setitem_def getattribute_attrs)
qed

lemma setattr_keeps_nodes:
  "H5NodeFilterProxy_setattr H p name v = Inr (H', p') \<Longrightarrow> nodes H' = nodes H"
  by (auto simp add: H5NodeFilterProxy_setattr_def setattr_val_def node_setattr_def
      split: if_splits sum.splits pyval.splits)

text \<open>
  A write through the node's own attribute manager does change what is persisted, so the
  isolation below is a property of the overlay and not of the store.
\<close>

lemma direct_write_changes_node:
  "map_option (\<lambda>s. nodes (fst s) 0)
     (case mapping_setitem plain_group (AttributeManager 0) ''type'' (PyInt 1) of
        Inl e \<Rightarrow> None | Inr s \<Rightarrow> Some s) =
   Some (Group [(''type'', PyInt 1)] [])"
  by (simp add: plain_group_def)

text \<open>
  Claim C1: a proxy made for a node and then used in any way through its overlay
  (attribute values written, deleted or read through \<^verbatim>\<open>proxy.attrs\<close>, other attributes
  read, content indexed) leaves the whole store as it was before the proxy existed; in
  particular every read of the node's real attributes gives the value it gave before.
\<close>

theorem proxy_use_leaves_node_unchanged:
  "\<exists>p. H5NodeFilterProxy_init H (NodeRef r) = Inr p \<and>
       fst (use_all us (H, p)) = H \<and>
       mapping_getitem (fst (use_all us (H, p))) (AttributeManager r) k =
         mapping_getitem H (AttributeManager r) k"
proof -
  let ?p = "\<lparr>h5_node = NodeRef r, attrs = ChainMap [] (AttributeManager r)\<rparr>"
  have "attrs ?p = ChainMap [] (AttributeManager r)" by simp
  from use_all_overlay [OF this] obtain p' where "use_all us (H, ?p) = (H, p')" by blast
  then have "fst (use_all us (H, ?p)) = H" by simp
  then show ?thesis using init_node [of H r] by auto
qed

text \<open>
  Claim C2: for the proxy of a node and any writes \<^verbatim>\<open>proxy.attrs[k_i] = v_i\<close>, the
  writes change the proxy's local dictionary only (the store, and so the node's attribute
  mapping, is the same afterwards), and \<^verbatim>\<open>proxy.attrs[key]\<close> then gives the value last
  written for the key if there is one, and otherwise what the node's persisted attributes
  give (the value, or \<^verbatim>\<open>KeyError\<close>).
\<close>

theorem overlay_read_write:
  "H5NodeFilterProxy_init H (NodeRef r) =
     Inr \<lparr>h5_node = NodeRef r, attrs = ChainMap [] (AttributeManager r)\<rparr> \<and>
   write_all ws (H, \<lparr>h5_node = NodeRef r, attrs = ChainMap [] (AttributeManager r)\<rparr>) =
     Inr (H, \<lparr>h5_node = NodeRef r,
               attrs = ChainMap (dict_from_pairs ws) (AttributeManager r)\<rparr>) \<and>
   proxy_attrs_getitem H
       \<lparr>h5_node = NodeRef r, attrs = ChainMap (dict_from_pairs ws) (AttributeManager r)\<rparr> k =
     (case last_written ws k of
        Some v \<Rightarrow> Inr v
      | None \<Rightarrow> mapping_getitem H (AttributeManager r) k)"
proof -
  let ?p = "\<lparr>h5_node = NodeRef r, attrs = ChainMap [] (AttributeManager r)\<rparr>"
  have "attrs ?p = ChainMap [] (AttributeManager r)" by simp
  from write_all_overlay [OF this, of ws H]
  have w: "write_all ws (H, ?p) =
     Inr (H, \<lparr>h5_node = NodeRef r,
               attrs = ChainMap (dict_from_pairs ws) (AttributeManager r)\<rparr>)"
    by (simp add: dict_from_pairs_def)
  have g: "proxy_attrs_getitem H
       \<lparr>h5_node = NodeRef r, attrs = ChainMap (dict_from_pairs ws) (AttributeManager r)\<rparr> k =
     (case last_written ws k of
        Some v \<Rightarrow> Inr v
      | None \<Rightarrow> mapping_getitem H (AttributeManager r) k)"
    by (simp add: proxy_attrs_getitem_def getattribute_attrs dict_from_pairs_def
        map_of_foldl_update last_written_def split: option.splits)
  from init_node [of H r] w g show ?thesis by blast
qed

text \<open>
  Claim C7, as stated: every operation other than access to the \<^verbatim>\<open>attrs\<close> overlay is
  forwarded to the wrapped node and returns the node's result. Reading
  \<^verbatim>\<open>proxy._h5_node\<close> is answered by the proxy itself with the wrapped node, where
  the node, asked for that attribute, raises \<^verbatim>\<open>AttributeError\<close>.
\<close>

theorem own_slot_not_forwarded_counterexample:
  "H5NodeFilterProxy_init plain_group (NodeRef 0) =
     Inr \<lparr>h5_node = NodeRef 0, attrs = ChainMap [] (AttributeManager 0)\<rparr> \<and>
   H5NodeFilterProxy_getattribute plain_group
       \<lparr>h5_node = NodeRef 0, attrs = ChainMap [] (AttributeManager 0)\<rparr> ''_h5_node'' =
     Inr (NodeRef 0) \<and>
   getattr_val plain_group (NodeRef 0) ''_h5_node'' = Inl AttributeError"
  by (simp add: init_node H5NodeFilterProxy_getattribute_def local_names_def local_slot_def
      getattr_val_def node_getattr_def plain_group_def node_methods_def)

text \<open>
  Claim C7, amended: indexing the proxy, and reading through the proxy any attribute whose
  name is neither \<^verbatim>\<open>attrs\<close> nor \<^verbatim>\<open>_h5_node\<close> (among them the methods that list a
  group's children), is forwarded to the wrapped node and returns the node's result
  unmodified; the two names \<^verbatim>\<open>attrs\<close> and \<^verbatim>\<open>_h5_node\<close> are the proxy's own.
\<close>

theorem other_operations_forwarded:
  "name \<notin> local_names \<Longrightarrow>
   H5NodeFilterProxy_getattribute H p name = getattr_val H (h5_node p) name \<and>
   H5NodeFilterProxy_getitem H p k = getitem_val H (h5_node p) k"
  by (simp add: H5NodeFilterProxy_getattribute_def H5NodeFilterProxy_getitem_def)

theorem other_operations_forwarded_witness:
  "''items'' \<notin> local_names \<and>
   H5NodeFilterProxy_getattribute plain_group
       \<lparr>h5_node = NodeRef 0, attrs = ChainMap [] (AttributeManager 0)\<rparr> ''items'' =
     Inr (BoundMethod 0 ''items'') \<and>
   H5NodeFilterProxy_getitem plain_group
       \<lparr>h5_node = NodeRef 0, attrs = ChainMap [] (AttributeManager 0)\<rparr> (KName ''data0'') =
     Inl KeyError"
  using other_operations_forwarded [of "''items''" plain_group
      "\<lparr>h5_node = NodeRef 0, attrs = ChainMap [] (AttributeManager 0)\<rparr>" "KName ''data0''"]
  by (simp add: local_names_def getattr_val_def node_getattr_def plain_group_def
      node_methods_def getitem_val_def node_getitem_def)

section \<open>Properties of no\_compression and not\_dumpable\<close>

lemma filter_update:
  "filter (\<lambda>(k, v). P k) (AList.update k v al) =
     (if P k then AList.update k v (filter (\<lambda>(k, v). P k) al)
      else filter (\<lambda>(k, v). P k) al)"
  by (induction al) auto

lemma filter_foldl_update:
  "filter (\<lambda>(k, v). P k) (foldl (\<lambda>d (k, v). AList.update k v d) d0 ps) =
     foldl (\<lambda>d (k, v). AList.update k v d) (filter (\<lambda>(k, v). P k) d0)
       (filter (\<lambda>(k, v). P k) ps)"
proof (induction ps arbitrary: d0)
  case Nil
  then show ?case by simp
next
  case (Cons p ps)
  obtain k v where p: "p = (k, v)" by (cases p)
  show ?case by (simp add: p Cons.IH filter_update)
qed

lemma update_fresh: "k \<notin> fst ` set al \<Longrightarrow> AList.update k v al = al @ [(k, v)]"
  by (induction al) auto

lemma foldl_update_distinct:
  "distinct (map fst (d0 @ ps)) \<Longrightarrow> foldl (\<lambda>d (k, v). AList.update k v d) d0 ps = d0 @ ps"
proof (induction ps arbitrary: d0)
  case Nil
  then show ?case by simp
next
  case (Cons p ps)
  obtain k v where p: "p = (k, v)" by (cases p)
  from Cons.prems have fresh: "k \<notin> fst ` set d0" by (auto simp add: p)
  from Cons.prems have "distinct (map fst ((d0 @ [(k, v)]) @ ps))" by (simp add: p)
  from Cons.IH [OF this] show ?case by (simp add: p update_fresh [OF fresh])
qed

lemma dict_from_pairs_dict: "distinct (map fst d) \<Longrightarrow> dict_from_pairs d = d"
  using foldl_update_distinct [of "[]" d] by (simp add: dict_from_pairs_def)

lemma no_compression_pairs:
  "no_compression m kw =
     filter (\<lambda>(k, v). k \<notin> compression_keys) (dict_from_pairs (arg_pairs m))"
  using filter_foldl_update [of "\<lambda>k. k \<notin> compression_keys" "[]" "arg_pairs m"]
  by (simp add: no_compression_def dict_from_pairs_def)

text \<open>
  Claim C9: for an input mapping (a dictionary, or pairs standing for the dictionary they
  build), \<^verbatim>\<open>no_compression(mapping)\<close> holds exactly the key-value pairs of the input
  whose key is none of compression, shuffle, compression\_opts, chunks, fletcher32 and
  scaleoffset, with their values and in their order, and no key of that set.
\<close>

theorem no_compression_keeps_other_pairs:
  "wf_arg m \<Longrightarrow>
   no_compression m kw = filter (\<lambda>(k, v). k \<notin> compression_keys) (as_dict m)"
  by (cases m) (simp_all add: no_compression_pairs dict_from_pairs_dict)

theorem no_compression_keeps_other_pairs_witness:
  "wf_arg dataset_kwargs \<and>
   no_compression dataset_kwargs [(''shuffle'', PyInt 1)] =
     [(''dtype'', PyInt 8), (''maxshape'', PyNone)]"
  using no_compression_keeps_other_pairs [of dataset_kwargs "[(''shuffle'', PyInt 1)]"]
  by (simp add: dataset_kwargs_def compression_keys_def)

text \<open>
  Claim C10: whatever its arguments, \<^verbatim>\<open>not_dumpable\<close> raises \<^verbatim>\<open>RuntimeError\<close>; it
  returns no value and leaves the store, and with it every group, as it was.
\<close>

theorem not_dumpable_always_raises:
  "not_dumpable H py_obj h_group name kwargs = (Inl RuntimeError, H)"
  by (simp add: not_dumpable_def)

section \<open>Properties of the string attribute helpers\<close>

lemma utf8_decode_examples:
  "utf8_decode [206, 177, 226, 130, 172, 240, 159, 152, 128, 65] = Some [945, 8364, 128512, 65] \<and>
   utf8_decode [192, 128] = None \<and> utf8_decode [237, 160, 128] = None \<and>
   utf8_decode [226, 130] = None"
  by (simp add: is_cont_def)

lemma old_branch_decodes_bytes:
  "module_helpers 2 ''load_str_attr_ascii'' = Some load_str_attr_ascii \<and>
   module_helpers 2 ''load_str_attr'' = Some load_str_attr \<and>
   load_str_attr_ascii H (ChainMap [(''type'', PyBytes [108, 105, 115, 116])] b) ''type'' =
     Inr (PyStr [108, 105, 115, 116]) \<and>
   load_str_attr H (ChainMap [(''type'', PyBytes [206, 177])] b) ''type'' = Inr (PyStr [945])"
  by (simp add: module_helpers_def bind_names_def load_str_attr_ascii_def load_str_attr_def
      is_cont_def)

text \<open>
  Claim C8 says that under every h5py version branch all four helpers are defined. With
  h5py 3 the module binds three of the four names: the second chained assignment binds
  \<^verbatim>\<open>load_str_list_attr\<close> a second time and \<^verbatim>\<open>load_str_attr\<close> never. The branch for
  older versions binds all four.
\<close>

theorem load_str_attr_unbound_under_h5py_3:
  "module_helpers 3 ''load_str_attr'' = None \<and>
   dom (module_helpers 3) =
     {''load_str_list_attr_ascii'', ''load_str_list_attr'', ''load_str_attr_ascii''} \<and>
   dom (module_helpers 2) = set helper_names"
  by (auto simp add: module_helpers_def bind_names_def helper_names_def)

end
